theory Spec2Isabelle
  imports Complex_Main "HOL-Library.Product_Lexorder"
begin

section \<open>Data model of foreign\_exchange\_prediction.py\<close>

text \<open>
  The script is a single top-to-bottom pass: it loads the historical prices, appends one row
  built from the sidebar inputs, lets Prophet fit and predict, scales the prediction,
  concatenates history and forecast, and prints a summary for one selected year.

  Modelling choices.
  \<^item> A pandas timestamp is a pair of the calendar year (what \<^verbatim>\<open>.dt.year\<close> reads) and the
    time elapsed inside that year; timestamps compare lexicographically, as instants do.
  \<^item> A float is a \<^typ>\<open>real\<close>; a cell of a frame that pandas fills with NaN is \<open>None\<close>.
    The cells of the loaded \<^verbatim>\<open>Close\<close> column and of the engine's columns are numbers.
  \<^item> The clock is read once per run: \<open>now\<close> stands for every \<^verbatim>\<open>datetime.now()\<close> of the pass.
  \<^item> Prophet is a parameter of the model: any function from a training frame and a number of
    periods to a forecast frame.
  \<^item> The script pins no pandas version, and line 59 behaves differently with and without
    copy-on-write; the mode is a parameter \<open>copy_on_write\<close> of the model (off by default
    before pandas 3.0, always on from 3.0).
\<close>

type_synonym timestamp = "int \<times> nat"

definition year_of :: "timestamp \<Rightarrow> int" where
  "year_of t = fst t"

text \<open>A row of the historical frame after \<^verbatim>\<open>load_data\<close> renamed its columns to \<open>ds\<close> and \<open>y\<close>.\<close>

record observation =
  ds :: timestamp
  y :: real

text \<open>
  The frame \<^verbatim>\<open>model.predict\<close> returns, column by column, as the script reads it: the
  \<^verbatim>\<open>yearly\<close> column may be missing (\<^verbatim>\<open>'yearly' in forecast.columns\<close>).
\<close>

record forecast_frame =
  f_ds :: "timestamp list"
  yhat :: "real list"
  trend :: "real list"
  yearly :: "real list option"

text \<open>The same frame after line 54 added the column \<^verbatim>\<open>yhat_adjusted\<close>.\<close>

record adjusted_frame =
  a_ds :: "timestamp list"
  a_yhat :: "real list"
  a_trend :: "real list"
  a_yearly :: "real list option"
  yhat_adjusted :: "real list"

text \<open>A row of \<^verbatim>\<open>combined_df\<close>: the union of the columns of both frames, and \<^verbatim>\<open>y_combined\<close>.\<close>

record blended_row =
  c_ds :: timestamp
  c_y :: "real option"
  c_yhat_adjusted :: "real option"
  y_combined :: "real option"

type_synonym fitted_model = "int \<Rightarrow> forecast_frame"

type_synonym engine = "observation list \<Rightarrow> fitted_model"

datatype summary =
  Historical_Data int "real option" "real option"
  | Forecasted_Data int "real option"
  | No_Data_Available int

datatype yearly_output =
  Yearly_Fig "timestamp list" "real list"
  | Yearly_Not_Available

section \<open>The script\<close>

subsection \<open>Engine calls (lines 17--26)\<close>

definition train_model :: "engine \<Rightarrow> observation list \<Rightarrow> fitted_model" where
  "train_model prophet df = prophet df"

definition generate_forecast :: "fitted_model \<Rightarrow> int \<Rightarrow> forecast_frame" where
  "generate_forecast model days = model days"

subsection \<open>Appending today's row (lines 41--45)\<close>

definition today :: "timestamp \<Rightarrow> real \<Rightarrow> observation list" where
  "today now current_gbp = [\<lparr>ds = now, y = current_gbp\<rparr>]"

definition df_updated :: "observation list \<Rightarrow> timestamp \<Rightarrow> real \<Rightarrow> observation list" where
  "df_updated df now current_gbp = concat [df, today now current_gbp]"

subsection \<open>Forecast and scaling (lines 48--54)\<close>

definition forecast ::
  "engine \<Rightarrow> observation list \<Rightarrow> timestamp \<Rightarrow> real \<Rightarrow> int \<Rightarrow> forecast_frame" where
  "forecast prophet df now current_gbp years =
     generate_forecast (train_model prophet (df_updated df now current_gbp)) (years * 365)"

definition adjust :: "forecast_frame \<Rightarrow> real \<Rightarrow> adjusted_frame" where
  "adjust fc current_usd =
     \<lparr>a_ds = f_ds fc, a_yhat = yhat fc, a_trend = trend fc, a_yearly = yearly fc,
      yhat_adjusted = map (\<lambda>v. v * current_usd) (yhat fc)\<rparr>"

subsection \<open>Combining history and forecast (lines 57--59)\<close>

text \<open>
  \<^verbatim>\<open>pd.concat\<close> of two frames with different columns stacks the rows of the first on the
  rows of the second and fills the column a frame does not have with NaN.
\<close>

definition prediction_rows :: "adjusted_frame \<Rightarrow> (timestamp \<times> real) list" where
  "prediction_rows fc = zip (a_ds fc) (yhat_adjusted fc)"

definition concat_frames ::
  "observation list \<Rightarrow> adjusted_frame \<Rightarrow> (timestamp \<times> real option \<times> real option) list" where
  "concat_frames dfu fc =
     map (\<lambda>ob. (ds ob, Some (y ob), None)) dfu
     @ map (\<lambda>(d, v). (d, None, Some v)) (prediction_rows fc)"

text \<open>\<^verbatim>\<open>Series.fillna(other)\<close>, cell by cell: a NaN cell takes the cell of \<open>other\<close>.\<close>

definition fillna :: "real option \<Rightarrow> real option \<Rightarrow> real option" where
  "fillna a b = (case a of None \<Rightarrow> b | Some v \<Rightarrow> Some v)"

text \<open>
  Line 58 copies the column \<^verbatim>\<open>y\<close> into \<^verbatim>\<open>y_combined\<close>. Line 59 is
  \<^verbatim>\<open>combined_df['y_combined'].fillna(combined_df['yhat_adjusted'], inplace=True)\<close>: an in-place
  method on a column selected from the frame. Without copy-on-write the selected column
  is the frame's own and the fill reaches the frame; with copy-on-write the selection is
  a temporary, the fill changes only that, and the column of the frame stays as line 58
  left it.
\<close>

definition combined_df ::
  "bool \<Rightarrow> observation list \<Rightarrow> adjusted_frame \<Rightarrow> blended_row list" where
  "combined_df copy_on_write dfu fc =
     map (\<lambda>(d, oy, oa).
            \<lparr>c_ds = d, c_y = oy, c_yhat_adjusted = oa,
             y_combined = (if copy_on_write then oy else fillna oy oa)\<rparr>)
       (concat_frames dfu fc)"

subsection \<open>Year summary (lines 62--83)\<close>

fun dropna :: "real option list \<Rightarrow> real list" where
  "dropna [] = []"
| "dropna (None # xs) = dropna xs"
| "dropna (Some v # xs) = v # dropna xs"

text \<open>\<^verbatim>\<open>Series.mean()\<close> skips NaN cells and is NaN when no cell is left.\<close>

definition average :: "real list \<Rightarrow> real option" where
  "average vals = (if vals = [] then None else Some (sum_list vals / real (length vals)))"

definition mean :: "real option list \<Rightarrow> real option" where
  "mean col = average (dropna col)"

definition selected_year_data :: "blended_row list \<Rightarrow> int \<Rightarrow> blended_row list" where
  "selected_year_data combined selected_year =
     filter (\<lambda>r. year_of (c_ds r) = selected_year) combined"

text \<open>
  What lines 69--83 write, before the rates are printed with four decimals. NaN times a
  number is NaN.
\<close>

definition year_summary :: "blended_row list \<Rightarrow> int \<Rightarrow> timestamp \<Rightarrow> real \<Rightarrow> summary" where
  "year_summary combined selected_year now current_usd =
     (let data = selected_year_data combined selected_year
      in if data \<noteq> [] then
           (if selected_year \<le> year_of now then
              (let actual_rate = mean (map c_y data);
                   adjusted_rate = map_option (\<lambda>a. a * current_usd) actual_rate
               in Historical_Data selected_year actual_rate adjusted_rate)
            else
              (let forecasted_rate = mean (map c_yhat_adjusted data)
               in Forecasted_Data selected_year forecasted_rate))
         else No_Data_Available selected_year)"

subsection \<open>Plot traces (lines 98--99, 134--158)\<close>

text \<open>\<^verbatim>\<open>Series.max()\<close> of an empty column is NaT, and every comparison with NaT is false.\<close>

fun ds_max :: "timestamp list \<Rightarrow> timestamp option" where
  "ds_max [] = None"
| "ds_max (t # ts) = Some (fold max ts t)"

definition after :: "timestamp option \<Rightarrow> timestamp \<Rightarrow> bool" where
  "after m d = (case m of None \<Rightarrow> False | Some t \<Rightarrow> t < d)"

definition forecast_dates :: "observation list \<Rightarrow> adjusted_frame \<Rightarrow> timestamp list" where
  "forecast_dates dfu fc =
     map fst (filter (\<lambda>(d, v). after (ds_max (map ds dfu)) d) (prediction_rows fc))"

definition forecast_values :: "observation list \<Rightarrow> adjusted_frame \<Rightarrow> real list" where
  "forecast_values dfu fc =
     map snd (filter (\<lambda>(d, v). after (ds_max (map ds dfu)) d) (prediction_rows fc))"

definition trend_fig :: "adjusted_frame \<Rightarrow> timestamp list \<times> real list" where
  "trend_fig fc = (a_ds fc, a_trend fc)"

definition yearly_fig :: "adjusted_frame \<Rightarrow> yearly_output" where
  "yearly_fig fc =
     (case a_yearly fc of
        Some col \<Rightarrow> Yearly_Fig (a_ds fc) col
      | None \<Rightarrow> Yearly_Not_Available)"

subsection \<open>The pass as a whole\<close>

definition adjusted_forecast ::
  "engine \<Rightarrow> observation list \<Rightarrow> timestamp \<Rightarrow> real \<Rightarrow> real \<Rightarrow> int \<Rightarrow> adjusted_frame" where
  "adjusted_forecast prophet df now current_usd current_gbp years =
     adjust (forecast prophet df now current_gbp years) current_usd"

definition blended_series ::
  "bool \<Rightarrow> engine \<Rightarrow> observation list \<Rightarrow> timestamp \<Rightarrow> real \<Rightarrow> real \<Rightarrow> int
     \<Rightarrow> blended_row list" where
  "blended_series copy_on_write prophet df now current_usd current_gbp years =
     combined_df copy_on_write (df_updated df now current_gbp)
       (adjusted_forecast prophet df now current_usd current_gbp years)"

definition report ::
  "bool \<Rightarrow> engine \<Rightarrow> observation list \<Rightarrow> timestamp \<Rightarrow> real \<Rightarrow> real \<Rightarrow> int \<Rightarrow> int
     \<Rightarrow> summary" where
  "report copy_on_write prophet df now current_usd current_gbp years selected_year =
     year_summary (blended_series copy_on_write prophet df now current_usd current_gbp years)
       selected_year now current_usd"

section \<open>Auxiliary facts\<close>

lemma dropna_append: "dropna (xs @ ys) = dropna xs @ dropna ys"
  by (induction xs rule: dropna.induct) simp_all

lemma dropna_map_Some: "dropna (map (\<lambda>x. Some (f x)) xs) = map f xs"
  by (induction xs) simp_all

lemma dropna_map_None: "dropna (map (\<lambda>x. None) xs) = []"
  by (induction xs) simp_all

lemma combined_df_rows:
  "combined_df copy_on_write dfu fc =
     map (\<lambda>ob. \<lparr>c_ds = ds ob, c_y = Some (y ob), c_yhat_adjusted = None, y_combined = Some (y ob)\<rparr>) dfu
     @ map (\<lambda>(d, v). \<lparr>c_ds = d, c_y = None, c_yhat_adjusted = Some v,
                     y_combined = (if copy_on_write then None else Some v)\<rparr>)
         (prediction_rows fc)"
  by (simp add: combined_df_def concat_frames_def fillna_def split_def)

lemma one_source_per_row:
  assumes "r \<in> set (combined_df copy_on_write dfu fc)"
  shows "(c_y r = None) \<noteq> (c_yhat_adjusted r = None)"
  using assms by (auto simp add: combined_df_rows)

lemma y_combined_filled_without_copy_on_write:
  assumes "r \<in> set (combined_df False dfu fc)"
  shows "y_combined r = (case c_y r of Some v \<Rightarrow> Some v | None \<Rightarrow> c_yhat_adjusted r)"
  using assms by (auto simp add: combined_df_rows)

lemma y_combined_is_y_under_copy_on_write:
  assumes "r \<in> set (combined_df True dfu fc)"
  shows "y_combined r = c_y r"
  using assms by (auto simp add: combined_df_rows)

lemma selected_observed:
  "dropna (map c_y (selected_year_data (combined_df copy_on_write dfu fc) sel)) =
     map y (filter (\<lambda>ob. year_of (ds ob) = sel) dfu)"
  by (simp add: combined_df_rows selected_year_data_def filter_map o_def split_def
      dropna_append dropna_map_Some dropna_map_None)

lemma selected_predicted:
  "dropna (map c_yhat_adjusted (selected_year_data (combined_df copy_on_write dfu fc) sel)) =
     map snd (filter (\<lambda>(d, v). year_of d = sel) (prediction_rows fc))"
  by (simp add: combined_df_rows selected_year_data_def filter_map o_def split_def
      dropna_append dropna_map_Some dropna_map_None)

lemma ds_max_Max: "ds_max ts = Some (Max (set ts))" if "ts \<noteq> []"
proof (cases ts)
  case Nil
  with that show ?thesis by simp
next
  case (Cons t rest)
  have "fold max rest t = Max (set (t # rest))"
    by (rule Max.set_eq_fold [symmetric])
  with Cons show ?thesis by simp
qed

lemma prediction_rows_adjust:
  "prediction_rows (adjust fc s) = zip (f_ds fc) (map (\<lambda>v. v * s) (yhat fc))"
  by (simp add: prediction_rows_def adjust_def)

lemma report_unfold:
  "report copy_on_write prophet df now current_usd current_gbp years sel =
     (if selected_year_data (blended_series copy_on_write prophet df now current_usd current_gbp years) sel \<noteq> []
      then
        (if sel \<le> year_of now then
           Historical_Data sel
             (average (map y (filter (\<lambda>ob. year_of (ds ob) = sel) (df_updated df now current_gbp))))
             (map_option (\<lambda>a. a * current_usd)
               (average (map y (filter (\<lambda>ob. year_of (ds ob) = sel) (df_updated df now current_gbp)))))
         else
           Forecasted_Data sel
             (average (map snd (filter (\<lambda>(d, v). year_of d = sel)
               (prediction_rows (adjusted_forecast prophet df now current_usd current_gbp years))))))
      else No_Data_Available sel)"
  by (simp add: report_def year_summary_def Let_def mean_def blended_series_def
      selected_observed selected_predicted)

section \<open>Series Normalizer\<close>

text \<open>
  C5. For a non-empty historical sequence and a positive anchor value, the merged training
  sequence has one row more than the history, starts with the historical rows in their
  original order, and ends with the anchor row, whose value is the anchor value.
\<close>

theorem df_updated_appends_anchor:
  assumes "df \<noteq> []" and "0 < current_gbp"
  shows "length (df_updated df now current_gbp) = length df + 1
    \<and> take (length df) (df_updated df now current_gbp) = df
    \<and> drop (length df) (df_updated df now current_gbp) = [\<lparr>ds = now, y = current_gbp\<rparr>]
    \<and> y (last (df_updated df now current_gbp)) = current_gbp"
  by (simp add: df_updated_def today_def)

theorem df_updated_appends_anchor_witness:
  "[\<lparr>ds = (2020, 0), y = 130 / 100\<rparr>, \<lparr>ds = (2021, 0), y = 135 / 100\<rparr>] \<noteq> []
    \<and> (0::real) < 140 / 100
    \<and> length (df_updated [\<lparr>ds = (2020, 0), y = 130 / 100\<rparr>, \<lparr>ds = (2021, 0), y = 135 / 100\<rparr>]
          (2024, 7) (140 / 100)) = 3
    \<and> y (last (df_updated [\<lparr>ds = (2020, 0), y = 130 / 100\<rparr>, \<lparr>ds = (2021, 0), y = 135 / 100\<rparr>]
          (2024, 7) (140 / 100))) = 140 / 100"
  using df_updated_appends_anchor
    [of "[\<lparr>ds = (2020, 0), y = 130 / 100\<rparr>, \<lparr>ds = (2021, 0), y = 135 / 100\<rparr>]" "140 / 100" "(2024, 7)"]
  by simp

section \<open>Forecast Blender\<close>

text \<open>
  C8. For a horizon of \<open>h\<close> years, \<open>1 \<le> h \<le> 10\<close>, the engine fitted on the merged sequence
  is asked for exactly \<open>h * 365\<close> periods, whatever the dates are.
\<close>

theorem horizon_days:
  assumes "1 \<le> h" and "h \<le> 10"
  shows "forecast prophet df now current_gbp h
    = prophet (df_updated df now current_gbp) (h * 365)"
  by (simp add: forecast_def generate_forecast_def train_model_def)

theorem horizon_days_witness:
  "(1::int) \<le> 5 \<and> (5::int) \<le> 10
   \<and> forecast (\<lambda>df days. \<lparr>f_ds = [], yhat = [real_of_int days], trend = [], yearly = None\<rparr>)
        [\<lparr>ds = (2020, 0), y = 13 / 10\<rparr>] (2024, 7) 1 5
      = \<lparr>f_ds = [], yhat = [1825], trend = [], yearly = None\<rparr>"
  using horizon_days [of 5 "\<lambda>df days. \<lparr>f_ds = [], yhat = [real_of_int days], trend = [], yearly = None\<rparr>"
      "[\<lparr>ds = (2020, 0), y = 13 / 10\<rparr>]" "(2024, 7)" 1]
  by simp

text \<open>
  C6. For a scale factor \<open>s > 0\<close>, the column \<^verbatim>\<open>yhat_adjusted\<close> is the column \<^verbatim>\<open>yhat\<close> with
  every value multiplied by \<open>s\<close>, and the adjusted predictions of the blended series are
  these products, in the engine's order, with nothing else applied. (Floats are reals here:
  the rounding of the one float multiplication is outside the model.)
\<close>

theorem scaling_is_one_multiplication:
  assumes "0 < s"
  shows "yhat_adjusted (adjust fc s) = map (\<lambda>v. v * s) (yhat fc)
    \<and> dropna (map c_yhat_adjusted (combined_df copy_on_write dfu (adjust fc s)))
        = map (\<lambda>(d, v). v * s) (zip (f_ds fc) (yhat fc))"
proof -
  have "dropna (map c_yhat_adjusted (combined_df copy_on_write dfu (adjust fc s)))
      = map snd (prediction_rows (adjust fc s))"
    by (simp add: combined_df_rows o_def split_def dropna_append dropna_map_Some dropna_map_None)
  also have "\<dots> = map (\<lambda>(d, v). v * s) (zip (f_ds fc) (yhat fc))"
    by (simp add: prediction_rows_adjust zip_map2 split_def o_def)
  finally show ?thesis by (simp add: adjust_def)
qed

theorem scaling_is_one_multiplication_witness:
  "(0::real) < 3 / 2
   \<and> yhat_adjusted (adjust \<lparr>f_ds = [(2025, 0), (2025, 1), (2025, 2)], yhat = [1, 2, 3],
        trend = [1, 1, 1], yearly = None\<rparr> (3 / 2)) = [3 / 2, 3, 9 / 2]"
  using scaling_is_one_multiplication
    [of "3 / 2" "\<lparr>f_ds = [(2025, 0), (2025, 1), (2025, 2)], yhat = [1, 2, 3],
        trend = [1, 1, 1], yearly = None\<rparr>"]
  by simp

text \<open>
  C9. Line 54 adds the column \<^verbatim>\<open>yhat_adjusted\<close> and changes no other column: the trend figure
  plots the engine's \<^verbatim>\<open>ds\<close> and \<^verbatim>\<open>trend\<close> columns as they came, and the yearly figure plots
  the engine's \<^verbatim>\<open>yearly\<close> column as it came, when there is one.
\<close>

theorem components_pass_through:
  "a_ds (adjust fc current_usd) = f_ds fc
   \<and> a_yhat (adjust fc current_usd) = yhat fc
   \<and> a_trend (adjust fc current_usd) = trend fc
   \<and> a_yearly (adjust fc current_usd) = yearly fc
   \<and> trend_fig (adjusted_forecast prophet df now current_usd current_gbp years)
       = (f_ds (forecast prophet df now current_gbp years),
          trend (forecast prophet df now current_gbp years))
   \<and> yearly_fig (adjusted_forecast prophet df now current_usd current_gbp years)
       = (case yearly (forecast prophet df now current_gbp years) of
            Some col \<Rightarrow> Yearly_Fig (f_ds (forecast prophet df now current_gbp years)) col
          | None \<Rightarrow> Yearly_Not_Available)"
  by (simp add: adjust_def trend_fig_def yearly_fig_def adjusted_forecast_def split: option.splits)

theorem components_pass_through_witness:
  "trend_fig (adjusted_forecast
      (\<lambda>df days. \<lparr>f_ds = [(2025, 0), (2025, 1)], yhat = [1, 2], trend = [5, 6],
         yearly = Some [7, 8]\<rparr>)
      [\<lparr>ds = (2020, 0), y = 13 / 10\<rparr>] (2024, 7) 3 1 1)
     = ([(2025, 0), (2025, 1)], [5, 6])
   \<and> yearly_fig (adjusted_forecast
      (\<lambda>df days. \<lparr>f_ds = [(2025, 0), (2025, 1)], yhat = [1, 2], trend = [5, 6],
         yearly = Some [7, 8]\<rparr>)
      [\<lparr>ds = (2020, 0), y = 13 / 10\<rparr>] (2024, 7) 3 1 1)
     = Yearly_Fig [(2025, 0), (2025, 1)] [7, 8]"
  using components_pass_through
    [of _ 3 "\<lambda>df days. \<lparr>f_ds = [(2025, 0), (2025, 1)], yhat = [1, 2], trend = [5, 6],
         yearly = Some [7, 8]\<rparr>" "[\<lparr>ds = (2020, 0), y = 13 / 10\<rparr>]" "(2024, 7)" 1 1]
  by (simp add: forecast_def generate_forecast_def train_model_def)

text \<open>
  C2. The claim asks that on every row \<^verbatim>\<open>y_combined\<close> be \<^verbatim>\<open>y\<close> when that is present and
  \<^verbatim>\<open>yhat_adjusted\<close> otherwise. Line 59 sets out to do that, but through an in-place method
  on a selected column. Run with copy-on-write on a history of two rows and one prediction
  of 2.0 scaled by 1.5, the script leaves the forecast row with \<^verbatim>\<open>yhat_adjusted\<close> 3.0 and
  \<^verbatim>\<open>y_combined\<close> null, where the claim requires 3.0. (In either mode every row has exactly
  one of \<^verbatim>\<open>y\<close> and \<^verbatim>\<open>yhat_adjusted\<close>; without copy-on-write the fill is made as the claim
  says: \<open>one_source_per_row\<close>, \<open>y_combined_filled_without_copy_on_write\<close>.)
\<close>

theorem y_combined_unfilled_under_copy_on_write:
  "combined_df True
      (df_updated [\<lparr>ds = (2020, 0), y = 13 / 10\<rparr>] (2024, 7) (14 / 10))
      (adjust \<lparr>f_ds = [(2025, 0)], yhat = [2], trend = [1], yearly = None\<rparr> (3 / 2))
    = [\<lparr>c_ds = (2020, 0), c_y = Some (13 / 10), c_yhat_adjusted = None,
         y_combined = Some (13 / 10)\<rparr>,
       \<lparr>c_ds = (2024, 7), c_y = Some (14 / 10), c_yhat_adjusted = None,
         y_combined = Some (14 / 10)\<rparr>,
       \<lparr>c_ds = (2025, 0), c_y = None, c_yhat_adjusted = Some 3, y_combined = None\<rparr>]"
  by (simp add: combined_df_def concat_frames_def prediction_rows_def adjust_def fillna_def
      df_updated_def today_def)

text \<open>
  C1, as the script has it. Line 57 puts every prediction row into the blended series,
  whatever its timestamp, with its scaled value as the adjusted prediction. The restriction
  to predictions strictly after the maximum timestamp of the merged historical sequence is
  made at lines 98--99 only, for the forecast trace of the plot: the trace is exactly the
  prediction rows after that maximum, so a prediction at or before it is not plotted.
\<close>

theorem predictions_all_blended_plot_filtered:
  "(\<forall>(d, v) \<in> set (prediction_rows fc).
      \<lparr>c_ds = d, c_y = None, c_yhat_adjusted = Some v,
       y_combined = (if copy_on_write then None else Some v)\<rparr>
        \<in> set (combined_df copy_on_write (df_updated df now current_gbp) fc))
   \<and> zip (forecast_dates (df_updated df now current_gbp) fc)
         (forecast_values (df_updated df now current_gbp) fc)
     = filter (\<lambda>(d, v). Max (set (map ds (df_updated df now current_gbp))) < d)
         (prediction_rows fc)
   \<and> (\<forall>d \<in> set (forecast_dates (df_updated df now current_gbp) fc).
        Max (set (map ds (df_updated df now current_gbp))) < d)"
proof -
  have ne: "map ds (df_updated df now current_gbp) \<noteq> []"
    by (simp add: df_updated_def today_def)
  have m: "ds_max (map ds (df_updated df now current_gbp))
      = Some (Max (set (map ds (df_updated df now current_gbp))))"
    using ne by (rule ds_max_Max)
  have a: "\<forall>(d, v) \<in> set (prediction_rows fc).
      \<lparr>c_ds = d, c_y = None, c_yhat_adjusted = Some v,
       y_combined = (if copy_on_write then None else Some v)\<rparr>
        \<in> set (combined_df copy_on_write (df_updated df now current_gbp) fc)"
    by (auto simp add: combined_df_rows)
  have b: "zip (forecast_dates (df_updated df now current_gbp) fc)
         (forecast_values (df_updated df now current_gbp) fc)
     = filter (\<lambda>(d, v). Max (set (map ds (df_updated df now current_gbp))) < d)
         (prediction_rows fc)"
    by (simp add: forecast_dates_def forecast_values_def m after_def zip_map_fst_snd)
  have c: "\<forall>d \<in> set (forecast_dates (df_updated df now current_gbp) fc).
        Max (set (map ds (df_updated df now current_gbp))) < d"
    by (auto simp add: forecast_dates_def m after_def)
  from a b c show ?thesis by blast
qed

theorem predictions_all_blended_plot_filtered_witness:
  "((2020, 0), 1) \<in> set (prediction_rows
       (adjust \<lparr>f_ds = [(2020, 0), (2025, 0)], yhat = [1, 2], trend = [1, 1], yearly = None\<rparr> 1))
   \<and> \<lparr>c_ds = (2020, 0), c_y = None, c_yhat_adjusted = Some 1, y_combined = Some 1\<rparr>
        \<in> set (combined_df False (df_updated [\<lparr>ds = (2020, 0), y = 13 / 10\<rparr>] (2024, 7) (14 / 10))
          (adjust \<lparr>f_ds = [(2020, 0), (2025, 0)], yhat = [1, 2], trend = [1, 1], yearly = None\<rparr> 1))
   \<and> forecast_dates (df_updated [\<lparr>ds = (2020, 0), y = 13 / 10\<rparr>] (2024, 7) (14 / 10))
          (adjust \<lparr>f_ds = [(2020, 0), (2025, 0)], yhat = [1, 2], trend = [1, 1], yearly = None\<rparr> 1)
      = [(2025, 0)]"
proof -
  have h: "((2020, 0), 1) \<in> set (prediction_rows
       (adjust \<lparr>f_ds = [(2020, 0), (2025, 0)], yhat = [1, 2], trend = [1, 1], yearly = None\<rparr> 1))"
    by (simp add: prediction_rows_adjust)
  have fd: "forecast_dates (df_updated [\<lparr>ds = (2020, 0), y = 13 / 10\<rparr>] (2024, 7) (14 / 10))
          (adjust \<lparr>f_ds = [(2020, 0), (2025, 0)], yhat = [1, 2], trend = [1, 1], yearly = None\<rparr> 1)
      = [(2025, 0)]"
    by (simp add: forecast_dates_def prediction_rows_adjust df_updated_def today_def after_def)
  show ?thesis
    using h fd predictions_all_blended_plot_filtered
      [of "adjust \<lparr>f_ds = [(2020, 0), (2025, 0)], yhat = [1, 2], trend = [1, 1], yearly = None\<rparr> 1"
          False "[\<lparr>ds = (2020, 0), y = 13 / 10\<rparr>]" "(2024, 7)" "14 / 10"]
    by auto
qed

text \<open>
  C1 as stated fails: a prediction dated at the first historical timestamp, not after the
  maximum of the merged sequence, is a row of the blended series with its adjusted
  prediction present.
\<close>

theorem past_prediction_kept_counterexample:
  "(2020, 0) \<le> Max (set (map ds (df_updated [\<lparr>ds = (2020, 0), y = 13 / 10\<rparr>] (2024, 7) (14 / 10))))
   \<and> \<lparr>c_ds = (2020, 0), c_y = None, c_yhat_adjusted = Some 1, y_combined = Some 1\<rparr>
     \<in> set (combined_df False (df_updated [\<lparr>ds = (2020, 0), y = 13 / 10\<rparr>] (2024, 7) (14 / 10))
          (adjust \<lparr>f_ds = [(2020, 0), (2025, 0)], yhat = [1, 2], trend = [1, 1], yearly = None\<rparr> 1))
   \<and> \<lparr>c_ds = (2020, 0), c_y = None, c_yhat_adjusted = Some 1, y_combined = None\<rparr>
     \<in> set (combined_df True (df_updated [\<lparr>ds = (2020, 0), y = 13 / 10\<rparr>] (2024, 7) (14 / 10))
          (adjust \<lparr>f_ds = [(2020, 0), (2025, 0)], yhat = [1, 2], trend = [1, 1], yearly = None\<rparr> 1))"
  by (simp add: combined_df_rows prediction_rows_adjust df_updated_def today_def)

section \<open>Year summary\<close>

text \<open>
  C3. When at least one blended row falls in the selected year: for a year up to the
  current one the summary is the mean of \<^verbatim>\<open>y\<close> over the matching rows and that mean times
  \<^verbatim>\<open>current_usd\<close>; for a later year it is the mean of \<^verbatim>\<open>yhat_adjusted\<close> over the matching
  rows. The first mean is the average of the values of the merged historical rows of that
  year, the second the average of the scaled predictions of that year (pandas skips the
  null cells, and the mean of no cell is NaN). When the observed values of the year are
  1.30 and 1.40 and \<^verbatim>\<open>current_usd\<close> is 2.0, the summary is 1.35 and 2.70.
\<close>

theorem report_for_matching_year:
  assumes "selected_year_data (blended_series copy_on_write prophet df now current_usd current_gbp years) sel \<noteq> []"
  shows "report copy_on_write prophet df now current_usd current_gbp years sel =
     (if sel \<le> year_of now then
        Historical_Data sel
          (mean (map c_y (selected_year_data
             (blended_series copy_on_write prophet df now current_usd current_gbp years) sel)))
          (map_option (\<lambda>a. a * current_usd)
             (mean (map c_y (selected_year_data
                (blended_series copy_on_write prophet df now current_usd current_gbp years) sel))))
      else
        Forecasted_Data sel
          (mean (map c_yhat_adjusted (selected_year_data
             (blended_series copy_on_write prophet df now current_usd current_gbp years) sel))))
    \<and> mean (map c_y (selected_year_data
          (blended_series copy_on_write prophet df now current_usd current_gbp years) sel))
       = average (map y (filter (\<lambda>ob. year_of (ds ob) = sel) (df_updated df now current_gbp)))
    \<and> mean (map c_yhat_adjusted (selected_year_data
          (blended_series copy_on_write prophet df now current_usd current_gbp years) sel))
       = average (map snd (filter (\<lambda>(d, v). year_of d = sel)
           (prediction_rows (adjusted_forecast prophet df now current_usd current_gbp years))))
    \<and> (sel \<le> year_of now
        \<and> map y (filter (\<lambda>ob. year_of (ds ob) = sel) (df_updated df now current_gbp))
            = [130 / 100, 140 / 100]
        \<and> current_usd = 2
        \<longrightarrow> report copy_on_write prophet df now current_usd current_gbp years sel
            = Historical_Data sel (Some (135 / 100)) (Some (270 / 100)))"
proof -
  have obs: "mean (map c_y (selected_year_data
          (blended_series copy_on_write prophet df now current_usd current_gbp years) sel))
       = average (map y (filter (\<lambda>ob. year_of (ds ob) = sel) (df_updated df now current_gbp)))"
    by (simp add: mean_def blended_series_def selected_observed)
  have pred: "mean (map c_yhat_adjusted (selected_year_data
          (blended_series copy_on_write prophet df now current_usd current_gbp years) sel))
       = average (map snd (filter (\<lambda>(d, v). year_of d = sel)
           (prediction_rows (adjusted_forecast prophet df now current_usd current_gbp years))))"
    by (simp add: mean_def blended_series_def selected_predicted)
  have rep: "report copy_on_write prophet df now current_usd current_gbp years sel =
     (if sel \<le> year_of now then
        Historical_Data sel
          (mean (map c_y (selected_year_data
             (blended_series copy_on_write prophet df now current_usd current_gbp years) sel)))
          (map_option (\<lambda>a. a * current_usd)
             (mean (map c_y (selected_year_data
                (blended_series copy_on_write prophet df now current_usd current_gbp years) sel))))
      else
        Forecasted_Data sel
          (mean (map c_yhat_adjusted (selected_year_data
             (blended_series copy_on_write prophet df now current_usd current_gbp years) sel))))"
    using assms by (simp add: report_def year_summary_def Let_def)
  have ex: "sel \<le> year_of now
        \<and> map y (filter (\<lambda>ob. year_of (ds ob) = sel) (df_updated df now current_gbp))
            = [130 / 100, 140 / 100]
        \<and> current_usd = 2
        \<longrightarrow> report copy_on_write prophet df now current_usd current_gbp years sel
            = Historical_Data sel (Some (135 / 100)) (Some (270 / 100))"
  proof (intro impI, elim conjE)
    assume le: "sel \<le> year_of now"
      and vals: "map y (filter (\<lambda>ob. year_of (ds ob) = sel) (df_updated df now current_gbp))
            = [130 / 100, 140 / 100]"
      and usd: "current_usd = 2"
    have "report copy_on_write prophet df now current_usd current_gbp years sel
        = Historical_Data sel (average [130 / 100, 140 / 100])
            (map_option (\<lambda>a. a * current_usd) (average [130 / 100, 140 / 100]))"
      using assms le unfolding report_unfold vals by simp
    then show "report copy_on_write prophet df now current_usd current_gbp years sel
            = Historical_Data sel (Some (135 / 100)) (Some (270 / 100))"
      by (simp add: average_def usd)
  qed
  from rep obs pred ex show ?thesis by blast
qed

theorem report_for_matching_year_witness:
  "selected_year_data
      (blended_series True (\<lambda>df days. \<lparr>f_ds = [(2025, 0)], yhat = [1], trend = [1], yearly = None\<rparr>)
        [\<lparr>ds = (2023, 10), y = 130 / 100\<rparr>, \<lparr>ds = (2023, 20), y = 140 / 100\<rparr>]
        (2024, 7) 2 1 1) 2023 \<noteq> []
   \<and> report True (\<lambda>df days. \<lparr>f_ds = [(2025, 0)], yhat = [1], trend = [1], yearly = None\<rparr>)
        [\<lparr>ds = (2023, 10), y = 130 / 100\<rparr>, \<lparr>ds = (2023, 20), y = 140 / 100\<rparr>]
        (2024, 7) 2 1 1 2023
      = Historical_Data 2023 (Some (135 / 100)) (Some (270 / 100))"
proof -
  have ne: "selected_year_data
      (blended_series True (\<lambda>df days. \<lparr>f_ds = [(2025, 0)], yhat = [1], trend = [1], yearly = None\<rparr>)
        [\<lparr>ds = (2023, 10), y = 130 / 100\<rparr>, \<lparr>ds = (2023, 20), y = 140 / 100\<rparr>]
        (2024, 7) 2 1 1) 2023 \<noteq> []"
    by (simp add: blended_series_def combined_df_rows selected_year_data_def df_updated_def
        today_def year_of_def)
  show ?thesis
    using ne report_for_matching_year [OF ne]
    by (simp add: year_of_def df_updated_def today_def average_def)
qed

text \<open>
  C4. When no blended row falls in the selected year, the summary is the "No data
  available" message: no mean is taken, and the result is neither a rate nor NaN.
\<close>

theorem report_no_data:
  assumes "\<forall>r \<in> set (blended_series copy_on_write prophet df now current_usd current_gbp years).
             year_of (c_ds r) \<noteq> sel"
  shows "report copy_on_write prophet df now current_usd current_gbp years sel = No_Data_Available sel"
proof -
  from assms
  have "selected_year_data (blended_series copy_on_write prophet df now current_usd current_gbp years) sel = []"
    by (simp add: selected_year_data_def filter_empty_conv)
  then show ?thesis
    by (simp add: report_def year_summary_def)
qed

theorem report_no_data_witness:
  "map (\<lambda>r. year_of (c_ds r)) (blended_series True
        (\<lambda>df days. \<lparr>f_ds = [(2025, 0)], yhat = [1], trend = [1], yearly = None\<rparr>)
        [\<lparr>ds = (2020, 0), y = 13 / 10\<rparr>] (2024, 7) 1 1 1) = [2020, 2024, 2025]
   \<and> report True (\<lambda>df days. \<lparr>f_ds = [(2025, 0)], yhat = [1], trend = [1], yearly = None\<rparr>)
        [\<lparr>ds = (2020, 0), y = 13 / 10\<rparr>] (2024, 7) 1 1 1 2022
      = No_Data_Available 2022"
proof -
  have years: "map (\<lambda>r. year_of (c_ds r)) (blended_series True
        (\<lambda>df days. \<lparr>f_ds = [(2025, 0)], yhat = [1], trend = [1], yearly = None\<rparr>)
        [\<lparr>ds = (2020, 0), y = 13 / 10\<rparr>] (2024, 7) 1 1 1) = [2020, 2024, 2025]"
    by (simp add: blended_series_def combined_df_rows df_updated_def today_def year_of_def
        adjusted_forecast_def forecast_def generate_forecast_def train_model_def
        prediction_rows_adjust)
  have h: "\<forall>r \<in> set (blended_series True
        (\<lambda>df days. \<lparr>f_ds = [(2025, 0)], yhat = [1], trend = [1], yearly = None\<rparr>)
        [\<lparr>ds = (2020, 0), y = 13 / 10\<rparr>] (2024, 7) 1 1 1).
      year_of (c_ds r) \<noteq> 2022"
    by (simp add: blended_series_def combined_df_rows df_updated_def today_def year_of_def
        adjusted_forecast_def forecast_def generate_forecast_def train_model_def
        prediction_rows_adjust)
  show ?thesis
    using years report_no_data [OF h] by simp
qed

text \<open>
  C10. When the selected year is the current year, the anchor row is among the matching
  rows, and the reported actual rate is the average of the historical values of that year
  together with the entered \<^verbatim>\<open>current_gbp\<close>; a different entered value gives a different
  report.
\<close>

theorem current_year_average_includes_anchor:
  assumes "sel = year_of now"
  shows "\<lparr>c_ds = now, c_y = Some current_gbp, c_yhat_adjusted = None, y_combined = Some current_gbp\<rparr>
       \<in> set (selected_year_data
               (blended_series copy_on_write prophet df now current_usd current_gbp years) sel)
    \<and> report copy_on_write prophet df now current_usd current_gbp years sel
       = Historical_Data sel
           (Some ((sum_list (map y (filter (\<lambda>ob. year_of (ds ob) = sel) df)) + current_gbp)
                  / (real (length (filter (\<lambda>ob. year_of (ds ob) = sel) df)) + 1)))
           (Some ((sum_list (map y (filter (\<lambda>ob. year_of (ds ob) = sel) df)) + current_gbp)
                  / (real (length (filter (\<lambda>ob. year_of (ds ob) = sel) df)) + 1)
                  * current_usd))
    \<and> (other_gbp \<noteq> current_gbp
        \<longrightarrow> report copy_on_write prophet df now current_usd other_gbp years sel
            \<noteq> report copy_on_write prophet df now current_usd current_gbp years sel)"
proof -
  have mem: "\<And>g. \<lparr>c_ds = now, c_y = Some g, c_yhat_adjusted = None, y_combined = Some g\<rparr>
       \<in> set (selected_year_data (blended_series copy_on_write prophet df now current_usd g years) sel)"
    using assms
    by (simp add: selected_year_data_def blended_series_def combined_df_rows df_updated_def
        today_def)
  have rep: "\<And>g. report copy_on_write prophet df now current_usd g years sel
       = Historical_Data sel
           (Some ((sum_list (map y (filter (\<lambda>ob. year_of (ds ob) = sel) df)) + g)
                  / (real (length (filter (\<lambda>ob. year_of (ds ob) = sel) df)) + 1)))
           (Some ((sum_list (map y (filter (\<lambda>ob. year_of (ds ob) = sel) df)) + g)
                  / (real (length (filter (\<lambda>ob. year_of (ds ob) = sel) df)) + 1)
                  * current_usd))"
  proof -
    fix g
    have ne: "selected_year_data (blended_series copy_on_write prophet df now current_usd g years) sel \<noteq> []"
      using mem [of g] by auto
    show "?thesis g"
      using assms ne
      by (simp add: report_unfold average_def df_updated_def today_def add.commute)
  qed
  have pos: "real (length (filter (\<lambda>ob. year_of (ds ob) = sel) df)) + 1 \<noteq> 0"
    by (smt (verit) of_nat_0_le_iff)
  have dep: "other_gbp \<noteq> current_gbp
        \<longrightarrow> report copy_on_write prophet df now current_usd other_gbp years sel
            \<noteq> report copy_on_write prophet df now current_usd current_gbp years sel"
    using pos by (simp add: rep)
  from mem [of current_gbp] rep [of current_gbp] dep show ?thesis by blast
qed

theorem current_year_average_includes_anchor_witness:
  "(2024::int) = year_of (2024, 7)
   \<and> report True (\<lambda>df days. \<lparr>f_ds = [(2025, 0)], yhat = [1], trend = [1], yearly = None\<rparr>)
        [\<lparr>ds = (2024, 1), y = 130 / 100\<rparr>] (2024, 7) 2 (140 / 100) 1 2024
      = Historical_Data 2024 (Some (135 / 100)) (Some (270 / 100))
   \<and> report True (\<lambda>df days. \<lparr>f_ds = [(2025, 0)], yhat = [1], trend = [1], yearly = None\<rparr>)
        [\<lparr>ds = (2024, 1), y = 130 / 100\<rparr>] (2024, 7) 2 (150 / 100) 1 2024
      \<noteq> report True (\<lambda>df days. \<lparr>f_ds = [(2025, 0)], yhat = [1], trend = [1], yearly = None\<rparr>)
        [\<lparr>ds = (2024, 1), y = 130 / 100\<rparr>] (2024, 7) 2 (140 / 100) 1 2024"
proof -
  have h: "(2024::int) = year_of (2024, 7)"
    by (simp add: year_of_def)
  show ?thesis
    using h current_year_average_includes_anchor [OF h,
        of "140 / 100" True "\<lambda>df days. \<lparr>f_ds = [(2025, 0)], yhat = [1], trend = [1], yearly = None\<rparr>"
           "[\<lparr>ds = (2024, 1), y = 130 / 100\<rparr>]" 2 1 "150 / 100"]
    by (auto simp add: year_of_def)
qed

end
